theory Spec2Isabelle
  imports Main "HOL-Library.FSet"
begin

section \<open>Python values shared by the components\<close>

text \<open>
  The components are synchronous Python. Python's unbounded \<open>int\<close> is \<^typ>\<open>int\<close> (or
  \<^typ>\<open>nat\<close> for counts and lengths, which are never negative). A Python \<open>float\<close> is
  modelled by the rational number it denotes, with every arithmetic operation exact: the
  embedding does not model the rounding of IEEE double arithmetic. \<open>round(x, n)\<close> is
  modelled on that exact value, rounding half to even as Python does.
  Every exception the modelled code can raise is a value of \<open>py_error\<close>.
\<close>

datatype py_error = ValueError

definition round_half_even :: "rat \<Rightarrow> int" where
  "round_half_even y =
     (let f = \<lfloor>y\<rfloor>; d = y - of_int f
      in if d < 1 / 2 then f else if 1 / 2 < d then f + 1
         else if even f then f else f + 1)"

definition py_round :: "rat \<Rightarrow> nat \<Rightarrow> rat" where
  "py_round x nd = of_int (round_half_even (x * 10 ^ nd)) / 10 ^ nd"

text \<open>\<open>str(n)\<close> for an integer, as used by the f-strings of the source.\<close>

fun str_nat :: "nat \<Rightarrow> string" where
  "str_nat n =
     (if n < 10 then [''0123456789'' ! n]
      else str_nat (n div 10) @ [''0123456789'' ! (n mod 10)])"

declare str_nat.simps [simp del]

definition str_int :: "int \<Rightarrow> string" where
  "str_int i = (if i < 0 then ''-'' @ str_nat (nat (- i)) else str_nat (nat i))"

text \<open>Python's \<open>xs[:n]\<close> for any integer \<open>n\<close>: a negative \<open>n\<close> counts from the end.\<close>

definition py_take :: "int \<Rightarrow> 'a list \<Rightarrow> 'a list" where
  "py_take n xs = (if 0 \<le> n then take (nat n) xs else take (nat (int (length xs) + n)) xs)"

section \<open>Fault localizer (fault\_localizer.py)\<close>

record TestResult =
  test_id :: string
  status :: string
  covered_lines :: "int list"

record SuspiciousLine =
  file_name :: string
  line_number :: int
  line_content :: string
  suspiciousness_score :: rat
  failed_coverage :: nat
  passed_coverage :: nat

record FaultLocalizationOutput =
  analysis_id :: string
  source_file :: string
  total_tests :: nat
  failed_tests :: nat
  passed_tests :: nat
  suspicious_lines :: "SuspiciousLine list"

text \<open>
  One entry \<open>{"passed": N, "failed": M}\<close> of \<open>self.line_coverage\<close>. The dictionary itself
  is an association list in insertion order, the order in which Python iterates it.
\<close>

record coverage =
  passed :: nat
  failed :: nat

type_synonym line_coverage_dict = "(int \<times> coverage) list"

record TarantulaLocalizer =
  line_coverage :: line_coverage_dict

definition TarantulaLocalizer_init :: TarantulaLocalizer where
  "TarantulaLocalizer_init = \<lparr>line_coverage = []\<rparr>"

text \<open>
  The loop body of \<open>_build_coverage_matrix\<close>:
  \<open>if line_num not in d: d[line_num] = {"passed": 0, "failed": 0}\<close> followed by
  \<open>d[line_num][key] += 1\<close>, the increment given as \<open>f\<close>. A new key goes to the end.
\<close>

fun count_line :: "(coverage \<Rightarrow> coverage) \<Rightarrow> int \<Rightarrow> line_coverage_dict \<Rightarrow> line_coverage_dict" where
  "count_line f k [] = [(k, f \<lparr>passed = 0, failed = 0\<rparr>)]"
| "count_line f k ((k', c) # d) =
     (if k = k' then (k', f c) # d else (k', c) # count_line f k d)"

definition count_tests :: "(coverage \<Rightarrow> coverage) \<Rightarrow> TestResult list \<Rightarrow> line_coverage_dict \<Rightarrow> line_coverage_dict" where
  "count_tests f tests d = fold (\<lambda>test. fold (count_line f) (covered_lines test)) tests d"

definition build_coverage_matrix :: "TestResult list \<Rightarrow> TestResult list \<Rightarrow> line_coverage_dict" where
  "build_coverage_matrix passed_ts failed_ts =
     count_tests (\<lambda>c. c\<lparr>failed := failed c + 1\<rparr>) failed_ts
       (count_tests (\<lambda>c. c\<lparr>passed := passed c + 1\<rparr>) passed_ts [])"

definition tarantula :: "nat \<Rightarrow> nat \<Rightarrow> nat \<Rightarrow> nat \<Rightarrow> rat" where
  "tarantula n_passed n_failed total_passed total_failed =
     (let pct_failed = (if total_failed > 0 then of_nat n_failed / of_nat total_failed else 0);
          pct_passed = (if total_passed > 0 then of_nat n_passed / of_nat total_passed else 0);
          denominator = pct_failed + pct_passed
      in if denominator > 0 then pct_failed / denominator else 0)"

definition line_text :: "(int \<rightharpoonup> string) option \<Rightarrow> int \<Rightarrow> string" where
  "line_text source_lines line_num =
     (case source_lines of
        None \<Rightarrow> ''<line '' @ str_int line_num @ ''>''
      | Some m \<Rightarrow> (case m line_num of
                    Some s \<Rightarrow> s
                  | None \<Rightarrow> ''<line '' @ str_int line_num @ ''>''))"

definition calculate_suspiciousness ::
  "line_coverage_dict \<Rightarrow> string \<Rightarrow> nat \<Rightarrow> nat \<Rightarrow> (int \<rightharpoonup> string) option \<Rightarrow> SuspiciousLine list" where
  "calculate_suspiciousness d src total_passed total_failed source_lines =
     map (\<lambda>(line_num, c).
            \<lparr>file_name = src,
             line_number = line_num,
             line_content = line_text source_lines line_num,
             suspiciousness_score =
               py_round (tarantula (passed c) (failed c) total_passed total_failed) 4,
             failed_coverage = failed c,
             passed_coverage = passed c\<rparr>) d"

text \<open>
  \<open>analyze\<close>. The identifier drawn from \<open>uuid.uuid4()\<close> is the argument \<open>uuid\<close>; the
  localizer object is passed in and returned, since \<open>_build_coverage_matrix\<close> overwrites
  its \<open>line_coverage\<close>. \<open>list.sort(key, reverse=True)\<close> is stable and keeps equal scores
  in their original order: that is the stable \<^const>\<open>sort_key\<close> on the negated score.
\<close>

definition analyze ::
  "TarantulaLocalizer \<Rightarrow> string \<Rightarrow> string \<Rightarrow> TestResult list \<Rightarrow> (int \<rightharpoonup> string) option
     \<Rightarrow> FaultLocalizationOutput \<times> TarantulaLocalizer" where
  "analyze self uuid src test_results source_lines =
     (let passed_ts = filter (\<lambda>t. status t = ''passed'') test_results;
          failed_ts = filter (\<lambda>t. status t = ''failed'') test_results
      in if failed_ts = [] then
           (\<lparr>analysis_id = uuid, source_file = src,
             total_tests = length test_results, failed_tests = 0,
             passed_tests = length passed_ts, suspicious_lines = []\<rparr>, self)
         else
           let self' = self\<lparr>line_coverage := build_coverage_matrix passed_ts failed_ts\<rparr>;
               lines = calculate_suspiciousness (line_coverage self') src
                         (length passed_ts) (length failed_ts) source_lines
           in (\<lparr>analysis_id = uuid, source_file = src,
                 total_tests = length test_results, failed_tests = length failed_ts,
                 passed_tests = length passed_ts,
                 suspicious_lines = sort_key (\<lambda>x. - suspiciousness_score x) lines\<rparr>, self'))"

text \<open>How many times the tests \<open>ts\<close> list line \<open>l\<close> as covered.\<close>

definition n_covering :: "int \<Rightarrow> TestResult list \<Rightarrow> nat" where
  "n_covering l ts = sum_list (map (\<lambda>t. count_list (covered_lines t) l) ts)"

definition covered_by :: "int \<Rightarrow> TestResult list \<Rightarrow> bool" where
  "covered_by l ts = (\<exists>t \<in> set ts. l \<in> set (covered_lines t))"

text \<open>The tests of a spectrum that have status \<open>s\<close>.\<close>

definition tests_with :: "string \<Rightarrow> TestResult list \<Rightarrow> TestResult list" where
  "tests_with s test_results = filter (\<lambda>t. status t = s) test_results"

text \<open>The counts a dictionary holds for line \<open>l\<close>, zero for a line that is no key.\<close>

definition entry :: "line_coverage_dict \<Rightarrow> int \<Rightarrow> coverage" where
  "entry d l = (case map_of d l of None \<Rightarrow> \<lparr>passed = 0, failed = 0\<rparr> | Some c \<Rightarrow> c)"

section \<open>Fitness evaluator (fitness\_evaluator.py)\<close>

text \<open>
  Of \<open>CFGOutput\<close> and \<open>TestExecutionOutput\<close> the records keep the fields that the
  evaluator reads. A Python \<open>set\<close> of branch identifiers is a finite set; the
  \<open>branches_covered\<close> list of a result is \<open>list(covered_branches)\<close>, a set enumerated
  in an order Python leaves open, and is kept as that set.
\<close>

record CFGEdge =
  source_node_id :: int
  target_node_id :: int

record CFGOutput =
  cfg_id :: string
  edges :: "CFGEdge list"

record TestExecutionOutput =
  execution_status :: string
  branches_taken :: "string list"

record BranchCoverageResult =
  test_case_id :: string
  branches_covered :: "string fset"
  total_branches :: nat
  coverage_percentage :: rat
  fitness_score :: rat

record FitnessEvaluationOutput =
  evaluated_cfg_id :: string
  evaluated_count :: nat
  results :: "BranchCoverageResult list"
  best_fitness :: rat
  avg_fitness :: rat

record FitnessEvaluator =
  cfg :: CFGOutput
  all_branches :: "string fset"
  global_covered_branches :: "string fset"



text \<open>
  \<open>calculate_fitness\<close> returns the result together with the evaluator after the update
  of \<open>self.global_covered_branches\<close>. The literals \<open>0.2\<close> and \<open>0.1\<close> are the rationals
  \<open>1/5\<close> and \<open>1/10\<close>.
\<close>

definition calculate_fitness ::
  "FitnessEvaluator \<Rightarrow> string \<Rightarrow> TestExecutionOutput \<Rightarrow> BranchCoverageResult \<times> FitnessEvaluator" where
  "calculate_fitness self tc_id execution_result =
     (let covered_branches = fset_of_list (branches_taken execution_result);
          new_branches = covered_branches |-| global_covered_branches self;
          self' = self\<lparr>global_covered_branches := global_covered_branches self |\<union>| new_branches\<rparr>;
          total = (if all_branches self \<noteq> {||} then fcard (all_branches self) else 1);
          percentage = (of_nat (fcard covered_branches) / of_nat total) * 100;
          score0 = of_nat (fcard covered_branches) / of_nat total;
          score1 = (if new_branches \<noteq> {||}
                    then score0 + (1 / 5) * (of_nat (fcard new_branches) / of_nat total)
                    else score0);
          score2 = (if execution_status execution_result = ''failed''
                    then score1 - 1 / 10 else score1);
          score3 = max 0 (min 1 score2)
      in (\<lparr>test_case_id = tc_id,
            branches_covered = covered_branches,
            total_branches = total,
            coverage_percentage = py_round percentage 2,
            fitness_score = py_round score3 4\<rparr>, self'))"

text \<open>The loop of \<open>evaluate_population\<close>: the results in order, and the evaluator after it.\<close>

fun evaluate_each ::
  "FitnessEvaluator \<Rightarrow> (string \<times> TestExecutionOutput) list \<Rightarrow> BranchCoverageResult list \<times> FitnessEvaluator" where
  "evaluate_each self [] = ([], self)"
| "evaluate_each self ((tc_id, execution_result) # rest) =
     (let (r, self') = calculate_fitness self tc_id execution_result;
          (rs, self'') = evaluate_each self' rest
      in (r # rs, self''))"

definition evaluate_population ::
  "FitnessEvaluator \<Rightarrow> string \<Rightarrow> (string \<times> TestExecutionOutput) list
     \<Rightarrow> FitnessEvaluationOutput \<times> FitnessEvaluator" where
  "evaluate_population self cid test_results =
     (let (rs, self') = evaluate_each self test_results;
          fitness_scores = map fitness_score rs;
          best = (case fitness_scores of [] \<Rightarrow> 0 | x # xs \<Rightarrow> fold max xs x);
          avg = (if fitness_scores \<noteq> []
                 then sum_list fitness_scores / of_nat (length fitness_scores) else 0)
      in (\<lparr>evaluated_cfg_id = cid,
            evaluated_count = length rs,
            results = rs,
            best_fitness = py_round best 4,
            avg_fitness = py_round avg 4\<rparr>, self'))"

text \<open>A run: any sequence of the two evaluating calls on one evaluator.\<close>

datatype evaluator_call =
    CalculateFitness string TestExecutionOutput
  | EvaluatePopulation string "(string \<times> TestExecutionOutput) list"

fun call_evaluator :: "FitnessEvaluator \<Rightarrow> evaluator_call \<Rightarrow> FitnessEvaluator" where
  "call_evaluator self (CalculateFitness tc_id execution_result) =
     snd (calculate_fitness self tc_id execution_result)"
| "call_evaluator self (EvaluatePopulation cid test_results) =
     snd (evaluate_population self cid test_results)"

text \<open>The evaluator states a run goes through, the starting state first.\<close>

fun run_states :: "FitnessEvaluator \<Rightarrow> evaluator_call list \<Rightarrow> FitnessEvaluator list" where
  "run_states self [] = [self]"
| "run_states self (c # cs) = self # run_states (call_evaluator self c) cs"

text \<open>
  The global coverage set of \<open>b\<close> contains that of \<open>a\<close> and is at least as large.
\<close>

definition grows :: "FitnessEvaluator \<Rightarrow> FitnessEvaluator \<Rightarrow> bool" where
  "grows a b =
     (global_covered_branches a |\<subseteq>| global_covered_branches b \<and>
      fcard (global_covered_branches a) \<le> fcard (global_covered_branches b))"








section \<open>Genetic operators (genetic\_engine.py)\<close>

text \<open>
  A gene is a Python value of run-time type \<open>int\<close>, \<open>float\<close> or \<open>bool\<close>; the source
  tells them apart with \<open>isinstance\<close> (a \<open>bool\<close> being excluded from the integers
  explicitly). In \<open>Chromosome\<close> the fields \<open>id\<close> and \<open>fitness_score\<close> are
  \<open>chrom_id\<close> and \<open>chrom_fitness_score\<close>.
\<close>

datatype gene = GInt int | GFloat rat | GBool bool



record Chromosome =
  chrom_id :: string
  genes :: "gene list"
  chrom_fitness_score :: rat
  chromosome_id :: "string option"
  fitness :: "rat option"

text \<open>
  Randomness is an explicit argument: each function takes the values that its calls of
  \<open>random\<close> and \<open>uuid\<close> return. \<open>random.choice(xs)\<close> with the drawn index \<open>k\<close> is
  \<open>choice k xs\<close>; \<open>k\<close> is reduced into range, so every \<open>k\<close> stands for an outcome.
\<close>

definition choice :: "nat \<Rightarrow> 'a list \<Rightarrow> 'a" where
  "choice k xs = xs ! (k mod length xs)"

text \<open>
  \<open>tournament_selection\<close>: \<open>picks\<close> are the positions \<open>random.sample\<close> draws, of which
  it uses \<open>min(3, len(population))\<close>. \<open>max(competitors, key=...)\<close> raises \<open>ValueError\<close> on
  an empty list and otherwise returns the first competitor of greatest fitness.
\<close>

definition tournament_selection :: "Chromosome list \<Rightarrow> nat list \<Rightarrow> py_error + Chromosome" where
  "tournament_selection population picks =
     (let k = 3;
          competitors = map (\<lambda>i. population ! i) (take (min k (length population)) picks)
      in case competitors of
           [] \<Rightarrow> Inl ValueError
         | c # cs \<Rightarrow>
             Inr (fold (\<lambda>x best. if chrom_fitness_score best < chrom_fitness_score x then x else best)
                       cs c))"

definition valid_picks :: "Chromosome list \<Rightarrow> nat list \<Rightarrow> bool" where
  "valid_picks population picks =
     (length picks = min 3 (length population) \<and> distinct picks \<and>
      (\<forall>i \<in> set picks. i < length population))"

text \<open>
  \<open>crossover\<close>: \<open>point\<close> is the value of \<open>random.randint(1, len(p1.genes) - 1)\<close> and
  \<open>uuid\<close> the new identifier. No statement of the source raises: slices accept any
  bounds. The result is a sum all the same, so that "returns" and "fails" can be told
  apart where a claim speaks of errors.
\<close>

definition crossover :: "Chromosome \<Rightarrow> Chromosome \<Rightarrow> nat \<Rightarrow> string \<Rightarrow> py_error + Chromosome" where
  "crossover p1 p2 point uuid =
     (if length (genes p1) < 2 then Inr p1
      else Inr \<lparr>chrom_id = uuid,
                genes = take point (genes p1) @ drop point (genes p2),
                chrom_fitness_score = 0,
                chromosome_id = None,
                fitness = None\<rparr>)"

text \<open>The draws of one pass of the standard mutation over one gene position.\<close>

datatype int_mutation = Small int | Large int | SignFlip | Boundary nat

datatype float_mutation = FSmall rat | FLarge rat | FBoundary nat

record gene_draw =
  chance :: rat
  int_choice :: int_mutation
  float_choice :: float_mutation

text \<open>
  The draws of one call of \<open>mutate\<close>: \<open>equal_chance\<close> and \<open>equal_pair\<close> for the first
  special mutation (\<open>random.random()\<close> and \<open>random.sample(range(n), 2)\<close>),
  \<open>boundary_chance\<close>, \<open>boundary_idx\<close> and \<open>boundary_pick\<close> for the second
  (\<open>random.random()\<close>, \<open>random.randint(0, n - 1)\<close> and the index \<open>random.choice\<close>
  draws), and \<open>per_gene i\<close> for position \<open>i\<close> of the standard mutation.
  \<open>valid_draws n\<close> holds of the draws that \<open>random\<close> can return for \<open>n\<close> genes: the
  pair is sampled only when there are two genes at least, and is then two distinct
  positions; the boundary position is drawn only when there is a gene.
\<close>

record mutate_draws =
  equal_chance :: rat
  equal_pair :: "nat \<times> nat"
  boundary_chance :: rat
  boundary_idx :: nat
  boundary_pick :: nat
  per_gene :: "nat \<Rightarrow> gene_draw"


text \<open>The body of the standard mutation's loop for one gene \<open>val\<close>.\<close>

definition mutate_gene :: "rat \<Rightarrow> gene \<Rightarrow> gene_draw \<Rightarrow> gene" where
  "mutate_gene rate val d =
     (if chance d < rate then
        (case val of
           GInt v \<Rightarrow>
             (case int_choice d of
                Small r \<Rightarrow> GInt (v + r)
              | Large r \<Rightarrow> GInt (v + r)
              | SignFlip \<Rightarrow> GInt (- v)
              | Boundary k \<Rightarrow> GInt (choice k [0, - 1, 1, v]))
         | GFloat v \<Rightarrow>
             (case float_choice d of
                FSmall r \<Rightarrow> GFloat (py_round (v + r) 2)
              | FLarge r \<Rightarrow> GFloat (py_round (v + r) 2)
              | FBoundary k \<Rightarrow> GFloat (choice k [0, - 1, 1, v]))
         | GBool b \<Rightarrow> GInt (1 - (if b then 1 else 0)))
      else val)"

definition standard_mutation :: "rat \<Rightarrow> mutate_draws \<Rightarrow> gene list \<Rightarrow> gene list" where
  "standard_mutation rate d gs =
     map (\<lambda>i. mutate_gene rate (gs ! i) (per_gene d i)) [0..<length gs]"

text \<open>
  The first special mutation: with probability 0.3, and two genes at least, the gene at
  the second drawn position becomes equal to the gene at the first.
\<close>

definition make_equal :: "mutate_draws \<Rightarrow> gene list \<Rightarrow> gene list" where
  "make_equal d gs =
     (if length gs \<ge> 2 \<and> equal_chance d < 3 / 10
      then gs[snd (equal_pair d) := gs ! fst (equal_pair d)] else gs)"

text \<open>
  \<open>mutate\<close> changes \<open>chromosome.genes\<close> in place and returns nothing: the model returns
  the chromosome after the call. \<open>random.randint(0, len(genes) - 1)\<close> raises
  \<open>ValueError\<close> when there is no gene; no gene has been written by then, the first
  special mutation needing two. The second special mutation returns early only for a
  gene that is an \<open>int\<close> or a \<open>float\<close> and no \<open>bool\<close>.
\<close>

definition mutate :: "Chromosome \<Rightarrow> rat \<Rightarrow> mutate_draws \<Rightarrow> py_error + Chromosome" where
  "mutate chromosome rate d =
     (let gs1 = make_equal d (genes chromosome)
      in if boundary_chance d < 1 / 10 then
           (if gs1 = [] then Inl ValueError
            else case gs1 ! boundary_idx d of
                   GBool b \<Rightarrow> Inr (chromosome\<lparr>genes := standard_mutation rate d gs1\<rparr>)
                 | _ \<Rightarrow> Inr (chromosome\<lparr>genes :=
                          gs1[boundary_idx d := GInt (choice (boundary_pick d) [0, - 1, 1, - 100, 100])]\<rparr>))
         else Inr (chromosome\<lparr>genes := standard_mutation rate d gs1\<rparr>))"

section \<open>Reporter (reporter.py)\<close>

record ReportOutput =
  report_id :: string
  generated_at :: string
  report_analysis_id :: string
  summary :: string
  top_suspicious_lines :: "SuspiciousLine list"
  recommendations :: "string list"

text \<open>\<open>sep.join(parts)\<close>, the \<open>repr\<close> of a list of integers, and the format \<open>:.2f\<close>.\<close>

fun join :: "string \<Rightarrow> string list \<Rightarrow> string" where
  "join sep [] = []"
| "join sep [x] = x"
| "join sep (x # y # ys) = x @ sep @ join sep (y # ys)"

definition repr_int_list :: "int list \<Rightarrow> string" where
  "repr_int_list xs = ''['' @ join '', '' (map str_int xs) @ '']''"

definition format_2f :: "rat \<Rightarrow> string" where
  "format_2f x =
     (let n = nat \<bar>round_half_even (x * 100)\<bar>
      in (if x < 0 then ''-'' else []) @ str_nat (n div 100) @ ''.'' @
         str_nat (n mod 100 div 10) @ str_nat (n mod 10))"

definition generate_summary :: "FaultLocalizationOutput \<Rightarrow> nat \<Rightarrow> string" where
  "generate_summary analysis num_reported =
     (let summary_parts =
            [''Fault Localization Report for: '' @ source_file analysis,
             ''Total tests executed: '' @ str_nat (total_tests analysis),
             ''Passed: '' @ str_nat (passed_tests analysis) @ '', Failed: '' @
               str_nat (failed_tests analysis),
             ''Suspicious lines identified: '' @ str_nat (length (suspicious_lines analysis)),
             ''Top '' @ str_nat num_reported @ '' lines reported below''];
          note =
            (if failed_tests analysis = 0
             then [''No test failures detected - no fault localization needed.'']
             else if length (suspicious_lines analysis) = 0
             then [''No executable lines covered by tests.'']
             else [])
      in join '' | '' (summary_parts @ note))"

text \<open>The differences of neighbouring elements, \<open>xs[i+1] - xs[i]\<close> for every \<open>i\<close>.\<close>

fun gaps :: "int list \<Rightarrow> int list" where
  "gaps (a # b # xs) = (b - a) # gaps (b # xs)"
| "gaps _ = []"

definition are_lines_clustered :: "int list \<Rightarrow> int \<Rightarrow> bool" where
  "are_lines_clustered line_numbers threshold =
     (if length line_numbers < 2 then False
      else let sorted_lines = sort line_numbers;
               max_gap = Max (set (gaps sorted_lines))
           in max_gap \<le> threshold)"

definition clustered_message :: "int list \<Rightarrow> string" where
  "clustered_message line_nums =
     ''Suspicious lines appear clustered around lines '' @ str_int (Min (set line_nums)) @
     ''-'' @ str_int (Max (set line_nums)) @ ''. The fault may be in this code region.''"

text \<open>
  The five recommendations of \<open>_generate_recommendations\<close>, in the order of the source;
  each is the list of the strings it appends, none or one.
\<close>

definition recommend_top_line :: "SuspiciousLine \<Rightarrow> string list" where
  "recommend_top_line top_line =
     (if suspiciousness_score top_line > 8 / 10 then
        [''HIGH PRIORITY: Line '' @ str_int (line_number top_line) @
         '' has very high suspiciousness ('' @
         format_2f (suspiciousness_score top_line) @ ''). Start debugging here.'']
      else if suspiciousness_score top_line > 1 / 2 then
        [''MEDIUM PRIORITY: Line '' @ str_int (line_number top_line) @
         '' shows moderate suspiciousness ('' @
         format_2f (suspiciousness_score top_line) @ ''). Review this line carefully.'']
      else
        [''LOW SUSPICIOUSNESS: Top line ('' @ str_int (line_number top_line) @
         '') has score '' @ format_2f (suspiciousness_score top_line) @
         ''. Fault may be subtle.''])"

definition recommend_only_in_failed :: "SuspiciousLine list \<Rightarrow> string list" where
  "recommend_only_in_failed top_suspicious =
     (let only_in_failed =
            filter (\<lambda>l. passed_coverage l = 0 \<and> failed_coverage l > 0) top_suspicious
      in if only_in_failed \<noteq> [] then
           [''Found '' @ str_nat (length only_in_failed) @
            '' line(s) ONLY executed in failed tests. These are highly suspect: '' @
            repr_int_list (map line_number (take 3 only_in_failed))]
         else [])"

definition recommend_clustered :: "SuspiciousLine list \<Rightarrow> string list" where
  "recommend_clustered top_suspicious =
     (if length top_suspicious \<ge> 3 then
        (let line_nums = map line_number (take 5 top_suspicious)
         in if are_lines_clustered line_nums 5 then [clustered_message line_nums] else [])
      else [])"

definition recommend_suite_size :: "FaultLocalizationOutput \<Rightarrow> string list" where
  "recommend_suite_size analysis =
     (if total_tests analysis < 5 then
        [''Only '' @ str_nat (total_tests analysis) @ '' test(s) available. '' @
         ''Increase test suite size for better fault localization accuracy.'']
      else [])"

definition recommend_balance :: "FaultLocalizationOutput \<Rightarrow> string list" where
  "recommend_balance analysis =
     (if passed_tests analysis = 0 then
        [''WARNING: No passing tests. Tarantula requires both passing and failing tests '' @
         ''for accurate results. Add passing test cases.'']
      else if failed_tests analysis > passed_tests analysis * 2 then
        [''Test suite is heavily skewed ('' @ str_nat (failed_tests analysis) @
         '' failed vs '' @ str_nat (passed_tests analysis) @
         '' passed). Add more passing tests for better accuracy.'']
      else [])"

definition generate_recommendations :: "FaultLocalizationOutput \<Rightarrow> SuspiciousLine list \<Rightarrow> string list" where
  "generate_recommendations analysis top_suspicious =
     (case top_suspicious of
        [] \<Rightarrow> [''No suspicious lines identified. Consider adding more test cases.'']
      | top_line # _ \<Rightarrow>
          recommend_top_line top_line @
          recommend_only_in_failed top_suspicious @
          recommend_clustered top_suspicious @
          recommend_suite_size analysis @
          recommend_balance analysis)"

text \<open>
  \<open>generate_report\<close>: \<open>uuid\<close> and \<open>now\<close> are the values of \<open>uuid.uuid4()\<close> and
  \<open>datetime.now().isoformat()\<close>.
\<close>

definition generate_report :: "FaultLocalizationOutput \<Rightarrow> int \<Rightarrow> string \<Rightarrow> string \<Rightarrow> ReportOutput" where
  "generate_report analysis top_n uuid now =
     (let top_suspicious = py_take top_n (suspicious_lines analysis)
      in \<lparr>report_id = uuid,
           generated_at = now,
           report_analysis_id = analysis_id analysis,
           summary = generate_summary analysis (length top_suspicious),
           top_suspicious_lines = top_suspicious,
           recommendations = generate_recommendations analysis top_suspicious\<rparr>)"

text \<open>Recognising the recommendation about clustered lines by its fixed opening words.\<close>

definition is_clustered_recommendation :: "string \<Rightarrow> bool" where
  "is_clustered_recommendation s = (take 33 s = ''Suspicious lines appear clustered'')"

section \<open>Concrete inputs\<close>





text \<open>Chromosomes and draws.\<close>

definition parent_a :: Chromosome where
  "parent_a = \<lparr>chrom_id = ''p1'', genes = [GInt 1, GInt 2, GInt 3], chrom_fitness_score = 7 / 10,
               chromosome_id = None, fitness = None\<rparr>"

definition parent_b :: Chromosome where
  "parent_b = \<lparr>chrom_id = ''p2'', genes = [GInt 9, GInt 8, GInt 7], chrom_fitness_score = 2 / 5,
               chromosome_id = None, fitness = None\<rparr>"

definition parent_short :: Chromosome where
  "parent_short = \<lparr>chrom_id = ''p3'', genes = [GInt 9], chrom_fitness_score = 0,
               chromosome_id = None, fitness = None\<rparr>"

definition draws_boundary :: mutate_draws where
  "draws_boundary =
     \<lparr>equal_chance = 1 / 2, equal_pair = (0, 1), boundary_chance = 1 / 20, boundary_idx = 0,
      boundary_pick = 0,
      per_gene = (\<lambda>i. \<lparr>chance = 1 / 2, int_choice = SignFlip, float_choice = FBoundary 0\<rparr>)\<rparr>"

text \<open>
  Two spectra: one with a passed, a failed and an error test, and one whose only test
  that did not pass is an error.
\<close>

definition trs_a :: "TestResult list" where
  "trs_a = [\<lparr>test_id = ''p'', status = ''passed'', covered_lines = [1, 2, 7]\<rparr>,
            \<lparr>test_id = ''f'', status = ''failed'', covered_lines = [1, 2, 3]\<rparr>,
            \<lparr>test_id = ''e'', status = ''error'', covered_lines = [1, 4]\<rparr>]"

definition trs_err :: "TestResult list" where
  "trs_err = [\<lparr>test_id = ''p'', status = ''passed'', covered_lines = [1, 2]\<rparr>,
              \<lparr>test_id = ''e'', status = ''error'', covered_lines = [1, 3]\<rparr>]"

text \<open>A chromosome with one real gene, one with an integer and a real gene, and draws
  under which neither special mutation happens.\<close>

definition chrom_float :: Chromosome where
  "chrom_float = \<lparr>chrom_id = ''c1'', genes = [GFloat (5 / 2)], chrom_fitness_score = 0,
                  chromosome_id = None, fitness = None\<rparr>"



text \<open>Analyses with three suspicious lines five apart, and with two adjacent ones.\<close>

definition suspect :: "int \<Rightarrow> SuspiciousLine" where
  "suspect n = \<lparr>file_name = ''f.cpp'', line_number = n, line_content = ''x = 1;'',
                suspiciousness_score = 1 / 2, failed_coverage = 1, passed_coverage = 1\<rparr>"

definition analysis_spread :: FaultLocalizationOutput where
  "analysis_spread =
     \<lparr>analysis_id = ''a1'', source_file = ''f.cpp'', total_tests = 6, failed_tests = 3,
      passed_tests = 3, suspicious_lines = [suspect 1, suspect 6, suspect 11]\<rparr>"

definition analysis_pair :: FaultLocalizationOutput where
  "analysis_pair =
     \<lparr>analysis_id = ''a2'', source_file = ''f.cpp'', total_tests = 6, failed_tests = 3,
      passed_tests = 3, suspicious_lines = [suspect 1, suspect 2]\<rparr>"


section \<open>Rounding\<close>

lemma round_half_even_bounds:
  assumes "0 \<le> y" and "y \<le> of_int N"
  shows "0 \<le> round_half_even y \<and> round_half_even y \<le> N"
proof -
  have f0: "0 \<le> \<lfloor>y\<rfloor>" using assms(1) by simp
  have fN: "\<lfloor>y\<rfloor> \<le> N" using assms(2) by (simp add: floor_le_iff)
  show ?thesis
  proof (cases "\<lfloor>y\<rfloor> = N")
    case True
    then have "y - of_int \<lfloor>y\<rfloor> \<le> 0" using assms(2) by simp
    then have "y - of_int \<lfloor>y\<rfloor> < 1 / 2" by linarith
    then show ?thesis using True f0 by (simp add: round_half_even_def Let_def)
  next
    case False
    then have "\<lfloor>y\<rfloor> + 1 \<le> N" using fN by linarith
    then show ?thesis using f0 fN by (auto simp: round_half_even_def Let_def)
  qed
qed

lemma py_round_unit:
  assumes "0 \<le> x" and "x \<le> 1"
  shows "0 \<le> py_round x nd \<and> py_round x nd \<le> 1"
proof -
  have a: "0 \<le> x * 10 ^ nd" using assms(1) by simp
  have b: "x * 10 ^ nd \<le> of_int (10 ^ nd)" using assms(2) by (simp add: mult_left_le_one_le)
  from round_half_even_bounds [OF a b]
  have c: "0 \<le> round_half_even (x * 10 ^ nd)" and d: "round_half_even (x * 10 ^ nd) \<le> 10 ^ nd"
    by auto
  have "(of_int (round_half_even (x * 10 ^ nd)) :: rat) \<le> of_int (10 ^ nd)"
    using d by (simp only: of_int_le_iff)
  then have e: "(of_int (round_half_even (x * 10 ^ nd)) :: rat) \<le> 10 ^ nd" by simp
  have f: "(0::rat) < 10 ^ nd" by simp
  show ?thesis unfolding py_round_def using c e f by (simp add: divide_le_eq)
qed

section \<open>Fitness evaluator\<close>

lemma fitness_score_calculate_fitness:
  "\<exists>s. 0 \<le> s \<and> s \<le> 1 \<and> fitness_score (fst (calculate_fitness self tc er)) = py_round s 4"
  unfolding calculate_fitness_def Let_def
  by (rule exI [where x = "max 0 (min 1 _)"]) simp

text \<open>
  Claim C2. For every evaluator state, every candidate identifier and every execution
  outcome (any list of branches taken, hence any novelty, and any status string), the
  fitness score that \<open>calculate_fitness\<close> returns lies in \<open>[0, 1]\<close>.
\<close>

theorem C2_fitness_in_unit_interval:
  "0 \<le> fitness_score (fst (calculate_fitness self tc_id execution_result)) \<and>
   fitness_score (fst (calculate_fitness self tc_id execution_result)) \<le> 1"
  using fitness_score_calculate_fitness [of self tc_id execution_result] py_round_unit
  by metis

lemma global_calculate_fitness:
  "global_covered_branches (snd (calculate_fitness self tc er)) =
     global_covered_branches self |\<union>| fset_of_list (branches_taken er)"
  by (auto simp: calculate_fitness_def Let_def)

lemma snd_evaluate_each_Cons:
  "snd (evaluate_each self ((tc, er) # rest)) =
     snd (evaluate_each (snd (calculate_fitness self tc er)) rest)"
  by (simp add: Let_def split: prod.splits)

lemma global_evaluate_each:
  "global_covered_branches self |\<subseteq>| global_covered_branches (snd (evaluate_each self trs))"
proof (induction trs arbitrary: self)
  case Nil
  then show ?case by simp
next
  case (Cons a trs)
  obtain tc er where a: "a = (tc, er)" by (cases a)
  have "global_covered_branches self |\<subseteq>|
          global_covered_branches (snd (calculate_fitness self tc er))"
    by (simp add: global_calculate_fitness)
  also have "\<dots> |\<subseteq>|
      global_covered_branches (snd (evaluate_each (snd (calculate_fitness self tc er)) trs))"
    by (rule Cons.IH)
  finally show ?case unfolding a snd_evaluate_each_Cons .
qed

lemma global_call_evaluator:
  "global_covered_branches self |\<subseteq>| global_covered_branches (call_evaluator self c)"
proof (cases c)
  case (CalculateFitness tc er)
  then show ?thesis by (simp add: global_calculate_fitness)
next
  case (EvaluatePopulation cid trs)
  have "snd (evaluate_population self cid trs) = snd (evaluate_each self trs)"
    by (simp add: evaluate_population_def Let_def split: prod.splits)
  then show ?thesis using EvaluatePopulation global_evaluate_each by simp
qed

lemma grows_call: "grows self (call_evaluator self c)"
  unfolding grows_def using global_call_evaluator [of self c] by (simp add: fcard_mono)

lemma grows_trans: "grows a b \<Longrightarrow> grows b c \<Longrightarrow> grows a c"
  unfolding grows_def by auto

lemma grows_run_all: "\<forall>s \<in> set (run_states self cs). grows self s"
proof (induction cs arbitrary: self)
  case Nil
  then show ?case by (simp add: grows_def)
next
  case (Cons c cs)
  have "\<forall>s \<in> set (run_states (call_evaluator self c) cs). grows self s"
    using Cons.IH [of "call_evaluator self c"] grows_call [of self c] grows_trans by blast
  then show ?case by (simp add: grows_def)
qed

lemma sorted_run_states: "sorted_wrt grows (run_states self cs)"
proof (induction cs arbitrary: self)
  case Nil
  then show ?case by simp
next
  case (Cons c cs)
  then show ?case
    using grows_run_all [of "call_evaluator self c" cs] grows_call [of self c] grows_trans
    by auto
qed

text \<open>
  Claim C3. In a run on one evaluator, whatever the sequence of \<open>calculate_fitness\<close> and
  \<open>evaluate_population\<close> calls, the global coverage set only gains elements: each call
  leaves a superset of the set it found, of at least the same size, and so every state
  of the run is contained in every later one.
\<close>

theorem C3_global_coverage_monotone:
  "grows self (call_evaluator self c) \<and> sorted_wrt grows (run_states self cs)"
  using grows_call sorted_run_states by simp








section \<open>Genetic operators\<close>

text \<open>
  Claim C5. For parents of equal gene arity at least 2 and a cut point in
  \<open>{1 .. arity - 1}\<close>, \<open>crossover\<close> returns a new chromosome that carries the newly drawn
  identifier, fitness 0, and parent 1's genes before the cut followed by parent 2's genes
  from the cut on, so as many genes as parent 1; with arity below 2 it returns parent 1
  unchanged and does not fail.
\<close>

theorem C5_crossover:
  "(length (genes p1) = length (genes p2) \<and> 2 \<le> length (genes p1) \<and>
    1 \<le> point \<and> point \<le> length (genes p1) - 1 \<longrightarrow>
      (\<exists>child. crossover p1 p2 point uuid = Inr child \<and>
         chrom_id child = uuid \<and> chrom_fitness_score child = 0 \<and>
         genes child = take point (genes p1) @ drop point (genes p2) \<and>
         length (genes child) = length (genes p1))) \<and>
   (length (genes p1) < 2 \<longrightarrow> crossover p1 p2 point uuid = Inr p1)"
  by (auto simp: crossover_def)

theorem C5_crossover_witness:
  "length (genes parent_a) = length (genes parent_b) \<and> 2 \<le> length (genes parent_a) \<and>
   (\<exists>child. crossover parent_a parent_b 1 ''c0ffee00'' = Inr child \<and>
      chrom_id child = ''c0ffee00'' \<and> chrom_fitness_score child = 0 \<and>
      genes child = [GInt 1, GInt 8, GInt 7] \<and> length (genes child) = 3) \<and>
   length (genes parent_short) < 2 \<and>
   crossover parent_short parent_a 1 ''c0ffee00'' = Inr parent_short"
  using C5_crossover [of parent_a parent_b 1 "''c0ffee00''"]
        C5_crossover [of parent_short parent_a 1 "''c0ffee00''"]
  by (simp add: parent_a_def parent_b_def parent_short_def numeral_3_eq_3)

text \<open>
  Claim C7 as stated fails: \<open>crossover\<close> applied to parents of arities 3 and 1 returns a
  child (of one gene) and no error.
\<close>

theorem C7_counterexample:
  "length (genes parent_a) \<noteq> length (genes parent_short) \<and>
   crossover parent_a parent_short 1 ''c0ffee00'' =
     Inr \<lparr>chrom_id = ''c0ffee00'', genes = [GInt 1], chrom_fitness_score = 0,
          chromosome_id = None, fitness = None\<rparr>"
  by (simp add: crossover_def parent_a_def parent_short_def)

lemma fold_max_greatest:
  "fold (\<lambda>x best. if chrom_fitness_score best < chrom_fitness_score x then x else best) cs c
     \<in> set (c # cs) \<and>
   (\<forall>x \<in> set (c # cs). chrom_fitness_score x \<le> chrom_fitness_score
      (fold (\<lambda>x best. if chrom_fitness_score best < chrom_fitness_score x then x else best) cs c))"
proof (induction cs arbitrary: c)
  case Nil
  then show ?case by simp
next
  case (Cons a cs)
  let ?f = "\<lambda>x best. if chrom_fitness_score best < chrom_fitness_score x then x else best"
  let ?c' = "?f a c"
  have ih: "fold ?f cs ?c' \<in> set (?c' # cs) \<and>
      (\<forall>x \<in> set (?c' # cs). chrom_fitness_score x \<le> chrom_fitness_score (fold ?f cs ?c'))"
    by (rule Cons.IH)
  have ge: "chrom_fitness_score c \<le> chrom_fitness_score ?c' \<and>
      chrom_fitness_score a \<le> chrom_fitness_score ?c'" by simp
  have mem: "?c' \<in> {a, c}" by simp
  have f: "fold ?f (a # cs) c = fold ?f cs ?c'" by simp
  have top: "chrom_fitness_score ?c' \<le> chrom_fitness_score (fold ?f cs ?c')" using ih by simp
  show ?case unfolding f using ih ge mem top by (auto simp del: fold_simps)
qed

lemma tournament_nonempty:
  assumes "population \<noteq> []" and "valid_picks population picks"
  shows "\<exists>c \<in> set population. tournament_selection population picks = Inr c \<and>
           c \<in> set (map (\<lambda>i. population ! i) picks) \<and>
           (\<forall>i \<in> set picks. chrom_fitness_score (population ! i) \<le> chrom_fitness_score c)"
proof -
  let ?f = "\<lambda>x best. if chrom_fitness_score best < chrom_fitness_score x then x else best"
  have len: "length picks = min 3 (length population)"
    using assms(2) by (simp add: valid_picks_def)
  then have ps: "take (min 3 (length population)) picks = picks" by simp
  have "0 < length picks" using len assms(1) by (cases population) auto
  then obtain i is' where picks: "picks = i # is'" by (cases picks) auto
  have inr: "\<forall>j \<in> set picks. population ! j \<in> set population"
    using assms(2) by (auto simp: valid_picks_def)
  let ?comp = "map (\<lambda>i. population ! i) picks"
  let ?r = "fold ?f (map (\<lambda>i. population ! i) is') (population ! i)"
  have comp: "?comp = population ! i # map (\<lambda>i. population ! i) is'" by (simp add: picks)
  have sel: "tournament_selection population picks = Inr ?r"
    unfolding tournament_selection_def Let_def ps using comp by simp
  from fold_max_greatest [of "map (\<lambda>i. population ! i) is'" "population ! i"]
  have r1: "?r \<in> set ?comp"
    and r2: "\<forall>x \<in> set ?comp. chrom_fitness_score x \<le> chrom_fitness_score ?r"
    unfolding comp by blast+
  have r3: "?r \<in> set population" using r1 inr by auto
  have r4: "\<forall>i \<in> set picks. chrom_fitness_score (population ! i) \<le> chrom_fitness_score ?r"
    using r2 by simp
  show ?thesis using sel r1 r3 r4 by blast
qed

lemma length_make_equal: "length (make_equal d gs) = length gs"
  by (simp add: make_equal_def)

lemma make_equal_Nil: "make_equal d gs = [] \<longleftrightarrow> gs = []"
  using length_make_equal [of d gs] by (metis length_0_conv)

lemma mutate_error_iff:
  "mutate ch rate d = Inl ValueError \<longleftrightarrow> genes ch = [] \<and> boundary_chance d < 1 / 10"
  by (auto simp: mutate_def Let_def make_equal_Nil split: gene.splits)

text \<open>
  Claim C7, as the code has it. Tournament selection on an empty population fails with
  \<open>ValueError\<close>; on a non-empty one it returns one of the drawn members, of the greatest
  fitness among them. \<open>crossover\<close> checks no arity and never fails: whatever the arities
  of the two parents, it returns parent 1 when parent 1 has fewer than 2 genes, and
  otherwise the new chromosome of parent 1's genes before the cut and parent 2's genes
  from the cut on. \<open>mutate\<close> takes one chromosome, and fails (with \<open>ValueError\<close>) exactly
  when the chromosome has no gene and the boundary-value step is drawn.
\<close>

theorem C7_invalid_arguments:
  "tournament_selection [] any_picks = Inl ValueError \<and>
   (population \<noteq> [] \<and> valid_picks population picks \<longrightarrow>
      (\<exists>c \<in> set population. tournament_selection population picks = Inr c \<and>
         c \<in> set (map (\<lambda>i. population ! i) picks) \<and>
         (\<forall>i \<in> set picks. chrom_fitness_score (population ! i) \<le> chrom_fitness_score c))) \<and>
   (length (genes p1) < 2 \<longrightarrow> crossover p1 p2 point uuid = Inr p1) \<and>
   (2 \<le> length (genes p1) \<longrightarrow>
      crossover p1 p2 point uuid =
        Inr \<lparr>chrom_id = uuid, genes = take point (genes p1) @ drop point (genes p2),
             chrom_fitness_score = 0, chromosome_id = None, fitness = None\<rparr>) \<and>
   (mutate ch rate d = Inl ValueError \<longleftrightarrow> genes ch = [] \<and> boundary_chance d < 1 / 10)"
proof -
  have a: "tournament_selection [] any_picks = Inl ValueError"
    by (simp add: tournament_selection_def)
  have c1: "length (genes p1) < 2 \<longrightarrow> crossover p1 p2 point uuid = Inr p1"
    by (simp add: crossover_def)
  have c2: "2 \<le> length (genes p1) \<longrightarrow>
      crossover p1 p2 point uuid =
        Inr \<lparr>chrom_id = uuid, genes = take point (genes p1) @ drop point (genes p2),
             chrom_fitness_score = 0, chromosome_id = None, fitness = None\<rparr>"
    by (simp add: crossover_def)
  show ?thesis using a c1 c2 tournament_nonempty mutate_error_iff by blast
qed

theorem C7_invalid_arguments_witness:
  "[parent_a, parent_b] \<noteq> [] \<and> valid_picks [parent_a, parent_b] [1, 0] \<and>
   tournament_selection [] [] = Inl ValueError \<and>
   tournament_selection [parent_a, parent_b] [1, 0] = Inr parent_a \<and>
   length (genes parent_a) \<noteq> length (genes parent_short) \<and>
   2 \<le> length (genes parent_a) \<and>
   crossover parent_a parent_short 2 ''c0ffee00'' =
     Inr \<lparr>chrom_id = ''c0ffee00'', genes = [GInt 1, GInt 2], chrom_fitness_score = 0,
          chromosome_id = None, fitness = None\<rparr> \<and>
   length (genes parent_short) < 2 \<and>
   crossover parent_short parent_a 1 ''c0ffee00'' = Inr parent_short \<and>
   genes (parent_a\<lparr>genes := []\<rparr>) = [] \<and> boundary_chance draws_boundary < 1 / 10 \<and>
   mutate (parent_a\<lparr>genes := []\<rparr>) (3 / 10) draws_boundary = Inl ValueError"
proof -
  note t1 = C7_invalid_arguments [of "[]" "[parent_a, parent_b]" "[1, 0]" parent_a parent_short 2
          "''c0ffee00''" "parent_a\<lparr>genes := []\<rparr>" "3 / 10" draws_boundary]
  note t2 = C7_invalid_arguments [of "[]" "[parent_a, parent_b]" "[1, 0]" parent_short parent_a 1
          "''c0ffee00''" "parent_a\<lparr>genes := []\<rparr>" "3 / 10" draws_boundary]
  have v: "[parent_a, parent_b] \<noteq> [] \<and> valid_picks [parent_a, parent_b] [1, 0]"
    by (simp add: valid_picks_def)
  from t1 v obtain c where c: "c \<in> set [parent_a, parent_b]"
    and sel: "tournament_selection [parent_a, parent_b] [1, 0] = Inr c"
    and top: "\<forall>i \<in> set [1, 0]. chrom_fitness_score ([parent_a, parent_b] ! i) \<le> chrom_fitness_score c"
    by blast
  have "chrom_fitness_score parent_a \<le> chrom_fitness_score c" using top by simp
  then have "c \<noteq> parent_b" by (auto simp: parent_a_def parent_b_def)
  then have s: "tournament_selection [parent_a, parent_b] [1, 0] = Inr parent_a"
    using c sel by auto
  have la: "2 \<le> length (genes parent_a) \<and> length (genes parent_a) \<noteq> length (genes parent_short)"
    by (simp add: parent_a_def parent_short_def)
  have ls: "length (genes parent_short) < 2" by (simp add: parent_short_def)
  from t1 la have x1: "crossover parent_a parent_short 2 ''c0ffee00'' =
        Inr \<lparr>chrom_id = ''c0ffee00'',
             genes = take 2 (genes parent_a) @ drop 2 (genes parent_short),
             chrom_fitness_score = 0, chromosome_id = None, fitness = None\<rparr>" by blast
  have g: "take 2 (genes parent_a) @ drop 2 (genes parent_short) = [GInt 1, GInt 2]"
    by (simp add: parent_a_def parent_short_def)
  from t2 ls have x2: "crossover parent_short parent_a 1 ''c0ffee00'' = Inr parent_short" by blast
  have e: "genes (parent_a\<lparr>genes := []\<rparr>) = [] \<and> boundary_chance draws_boundary < 1 / 10"
    by (simp add: draws_boundary_def)
  from t1 e have m: "mutate (parent_a\<lparr>genes := []\<rparr>) (3 / 10) draws_boundary = Inl ValueError"
    by blast
  have a: "tournament_selection [] [] = Inl ValueError" using t1 by blast
  show ?thesis using v a s la x1 g ls x2 e m by simp
qed

section \<open>Fault localizer\<close>

lemma keys_count_line: "fst ` set (count_line f k d) = insert k (fst ` set d)"
  by (induction f k d rule: count_line.induct) (simp_all add: insert_commute)

lemma distinct_count_line:
  "distinct (map fst d) \<Longrightarrow> distinct (map fst (count_line f k d))"
proof (induction d)
  case Nil
  then show ?case by simp
next
  case (Cons a d)
  obtain k' c where a: "a = (k', c)" by (cases a)
  show ?case
  proof (cases "k = k'")
    case True
    then show ?thesis using Cons.prems a by simp
  next
    case False
    have "k' \<notin> fst ` set (count_line f k d)"
      using Cons.prems a False by (simp add: keys_count_line)
    then show ?thesis using Cons a False by simp
  qed
qed

lemma entry_count_line:
  "entry (count_line f k d) l = (if l = k then f (entry d l) else entry d l)"
  by (induction d) (auto simp: entry_def)

lemma keys_fold_count_line:
  "fst ` set (fold (count_line f) ls d) = fst ` set d \<union> set ls"
  by (induction ls arbitrary: d) (auto simp: keys_count_line)

lemma distinct_fold_count_line:
  "distinct (map fst d) \<Longrightarrow> distinct (map fst (fold (count_line f) ls d))"
  by (induction ls arbitrary: d) (auto simp: distinct_count_line)

lemma entry_fold_count_line:
  "entry (fold (count_line f) ls d) l = (f ^^ count_list ls l) (entry d l)"
  by (induction ls arbitrary: d) (auto simp: entry_count_line funpow_swap1)

lemma funpow_add_apply: "(f ^^ (a + b)) x = (f ^^ b) ((f ^^ a) x)"
  by (induction b) simp_all

lemma keys_count_tests:
  "fst ` set (count_tests f ts d) = fst ` set d \<union> {l. covered_by l ts}"
  unfolding count_tests_def covered_by_def
  by (induction ts arbitrary: d) (auto simp: keys_fold_count_line)

lemma distinct_count_tests:
  "distinct (map fst d) \<Longrightarrow> distinct (map fst (count_tests f ts d))"
  unfolding count_tests_def
  by (induction ts arbitrary: d) (auto simp: distinct_fold_count_line)

lemma entry_count_tests:
  "entry (count_tests f ts d) l = (f ^^ n_covering l ts) (entry d l)"
  unfolding count_tests_def n_covering_def
  by (induction ts arbitrary: d) (simp_all add: entry_fold_count_line funpow_add_apply)

lemma funpow_passed: "((\<lambda>c. c\<lparr>passed := passed c + 1\<rparr>) ^^ n) c = c\<lparr>passed := passed c + n\<rparr>"
  by (induction n) auto

lemma funpow_failed: "((\<lambda>c. c\<lparr>failed := failed c + 1\<rparr>) ^^ n) c = c\<lparr>failed := failed c + n\<rparr>"
  by (induction n) auto

lemma keys_build:
  "fst ` set (build_coverage_matrix ps fs) = {l. covered_by l ps \<or> covered_by l fs}"
  unfolding build_coverage_matrix_def by (auto simp: keys_count_tests)

lemma distinct_build: "distinct (map fst (build_coverage_matrix ps fs))"
  unfolding build_coverage_matrix_def by (simp add: distinct_count_tests)

lemma entry_build:
  "entry (build_coverage_matrix ps fs) l = \<lparr>passed = n_covering l ps, failed = n_covering l fs\<rparr>"
  unfolding build_coverage_matrix_def entry_count_tests funpow_passed funpow_failed
  by (simp add: entry_def)

lemma member_build:
  assumes "(l, c) \<in> set (build_coverage_matrix ps fs)"
  shows "c = \<lparr>passed = n_covering l ps, failed = n_covering l fs\<rparr> \<and>
         (covered_by l ps \<or> covered_by l fs)"
proof -
  have "map_of (build_coverage_matrix ps fs) l = Some c"
    using assms distinct_build by (simp add: map_of_eq_Some_iff)
  then have "entry (build_coverage_matrix ps fs) l = c" by (simp add: entry_def)
  moreover have "l \<in> fst ` set (build_coverage_matrix ps fs)" using assms by force
  ultimately show ?thesis by (simp add: entry_build keys_build)
qed

lemma n_covering_pos: "0 < n_covering l ts \<longleftrightarrow> covered_by l ts"
  unfolding n_covering_def covered_by_def
  by (induction ts) (auto simp: count_list_0_iff)

lemma tarantula_bounds: "0 \<le> tarantula np nf tp tf \<and> tarantula np nf tp tf \<le> 1"
proof -
  define pf :: rat where "pf = (if tf > 0 then of_nat nf / of_nat tf else 0)"
  define pp :: rat where "pp = (if tp > 0 then of_nat np / of_nat tp else 0)"
  have a: "0 \<le> pf" and b: "0 \<le> pp" by (simp_all add: pf_def pp_def)
  have t: "tarantula np nf tp tf = (if pf + pp > 0 then pf / (pf + pp) else 0)"
    by (simp add: tarantula_def pf_def pp_def Let_def)
  show ?thesis unfolding t using a b by (simp add: divide_le_eq)
qed

lemma tarantula_only_failed: "0 < nf \<Longrightarrow> 0 < tf \<Longrightarrow> tarantula 0 nf tp tf = 1"
  by (simp add: tarantula_def Let_def)

lemma tarantula_no_failed: "tarantula np 0 tp tf = 0"
  by (simp add: tarantula_def Let_def)

lemma py_round_0: "py_round 0 nd = 0"
  by (simp add: py_round_def round_half_even_def)

lemma round_half_even_of_int: "round_half_even (of_int n) = n"
  by (simp add: round_half_even_def)

lemma py_round_1: "py_round 1 nd = 1"
proof -
  have "round_half_even (1 * 10 ^ nd) = 10 ^ nd"
    using round_half_even_of_int [of "10 ^ nd"] by simp
  then show ?thesis by (simp add: py_round_def)
qed

lemma suspicious_lines_analyze:
  "suspicious_lines (fst (analyze self uuid src trs sl)) =
     (if tests_with ''failed'' trs = [] then []
      else sort_key (\<lambda>x. - suspiciousness_score x)
             (calculate_suspiciousness
                (build_coverage_matrix (tests_with ''passed'' trs) (tests_with ''failed'' trs))
                src (length (tests_with ''passed'' trs)) (length (tests_with ''failed'' trs)) sl))"
  by (simp add: analyze_def tests_with_def Let_def)

lemma set_suspicious_lines:
  assumes "tests_with ''failed'' trs \<noteq> []"
  shows "s \<in> set (suspicious_lines (fst (analyze self uuid src trs sl))) \<longleftrightarrow>
     (\<exists>l. (covered_by l (tests_with ''passed'' trs) \<or> covered_by l (tests_with ''failed'' trs)) \<and>
        s = \<lparr>file_name = src, line_number = l, line_content = line_text sl l,
             suspiciousness_score =
               py_round (tarantula (n_covering l (tests_with ''passed'' trs))
                                   (n_covering l (tests_with ''failed'' trs))
                                   (length (tests_with ''passed'' trs))
                                   (length (tests_with ''failed'' trs))) 4,
             failed_coverage = n_covering l (tests_with ''failed'' trs),
             passed_coverage = n_covering l (tests_with ''passed'' trs)\<rparr>)"
    (is "?L \<longleftrightarrow> ?R")
proof
  let ?d = "build_coverage_matrix (tests_with ''passed'' trs) (tests_with ''failed'' trs)"
  assume ?L
  then obtain l c where lc: "(l, c) \<in> set ?d"
    and s: "s = \<lparr>file_name = src, line_number = l, line_content = line_text sl l,
             suspiciousness_score =
               py_round (tarantula (passed c) (failed c) (length (tests_with ''passed'' trs))
                                   (length (tests_with ''failed'' trs))) 4,
             failed_coverage = failed c, passed_coverage = passed c\<rparr>"
    using assms by (auto simp: suspicious_lines_analyze calculate_suspiciousness_def)
  from member_build [OF lc] show ?R using s by auto
next
  let ?d = "build_coverage_matrix (tests_with ''passed'' trs) (tests_with ''failed'' trs)"
  assume ?R
  then obtain l where cov: "covered_by l (tests_with ''passed'' trs) \<or> covered_by l (tests_with ''failed'' trs)"
    and s: "s = \<lparr>file_name = src, line_number = l, line_content = line_text sl l,
             suspiciousness_score =
               py_round (tarantula (n_covering l (tests_with ''passed'' trs))
                                   (n_covering l (tests_with ''failed'' trs))
                                   (length (tests_with ''passed'' trs))
                                   (length (tests_with ''failed'' trs))) 4,
             failed_coverage = n_covering l (tests_with ''failed'' trs),
             passed_coverage = n_covering l (tests_with ''passed'' trs)\<rparr>" by blast
  have "l \<in> fst ` set ?d" using cov by (simp add: keys_build)
  then obtain c where lc: "(l, c) \<in> set ?d" by auto
  from member_build [OF lc] have c: "c = \<lparr>passed = n_covering l (tests_with ''passed'' trs),
       failed = n_covering l (tests_with ''failed'' trs)\<rparr>" by simp
  have "(\<lambda>(line_num, c).
            \<lparr>file_name = src, line_number = line_num, line_content = line_text sl line_num,
             suspiciousness_score =
               py_round (tarantula (passed c) (failed c) (length (tests_with ''passed'' trs))
                                   (length (tests_with ''failed'' trs))) 4,
             failed_coverage = failed c, passed_coverage = passed c\<rparr>) (l, c) = s"
    using s c by simp
  then have "s \<in> set (calculate_suspiciousness ?d src (length (tests_with ''passed'' trs))
                 (length (tests_with ''failed'' trs)) sl)"
    unfolding calculate_suspiciousness_def using lc by (metis (no_types, lifting) image_eqI set_map)
  then show ?L using assms by (simp add: suspicious_lines_analyze)
qed

lemma covered_by_tests_with: "covered_by l (tests_with s trs) \<Longrightarrow> covered_by l trs"
  by (auto simp: covered_by_def tests_with_def)

text \<open>
  Claim C1. For a spectrum with at least one failed test, every suspicious-line record
  that \<open>analyze\<close> produces has a score in \<open>[0, 1]\<close>; a line covered by at least one
  failing test and by no passing test is in the ranking with score 1; a line covered by
  a passing test and by no failing test is in the ranking with score 0; a line that no
  test covers is not in the ranking.
\<close>

theorem C1_tarantula_scores:
  assumes "tests_with ''failed'' trs \<noteq> []"
  shows "(\<forall>s \<in> set (suspicious_lines (fst (analyze self uuid src trs sl))).
            0 \<le> suspiciousness_score s \<and> suspiciousness_score s \<le> 1) \<and>
         (\<forall>l. covered_by l (tests_with ''failed'' trs) \<and> \<not> covered_by l (tests_with ''passed'' trs) \<longrightarrow>
            (\<exists>s \<in> set (suspicious_lines (fst (analyze self uuid src trs sl))). line_number s = l) \<and>
            (\<forall>s \<in> set (suspicious_lines (fst (analyze self uuid src trs sl))).
               line_number s = l \<longrightarrow> suspiciousness_score s = 1)) \<and>
         (\<forall>l. covered_by l (tests_with ''passed'' trs) \<and> \<not> covered_by l (tests_with ''failed'' trs) \<longrightarrow>
            (\<exists>s \<in> set (suspicious_lines (fst (analyze self uuid src trs sl))). line_number s = l) \<and>
            (\<forall>s \<in> set (suspicious_lines (fst (analyze self uuid src trs sl))).
               line_number s = l \<longrightarrow> suspiciousness_score s = 0)) \<and>
         (\<forall>l. \<not> covered_by l trs \<longrightarrow>
            (\<forall>s \<in> set (suspicious_lines (fst (analyze self uuid src trs sl))). line_number s \<noteq> l))"
proof -
  let ?out = "suspicious_lines (fst (analyze self uuid src trs sl))"
  let ?P = "tests_with ''passed'' trs" and ?F = "tests_with ''failed'' trs"
  note mem = set_suspicious_lines [OF assms, of _ self uuid src sl]
  have tf: "0 < length ?F" using assms by simp
  have a: "\<forall>s \<in> set ?out. 0 \<le> suspiciousness_score s \<and> suspiciousness_score s \<le> 1"
  proof
    fix s assume "s \<in> set ?out"
    then obtain l where "suspiciousness_score s =
        py_round (tarantula (n_covering l ?P) (n_covering l ?F) (length ?P) (length ?F)) 4"
      unfolding mem by auto
    then show "0 \<le> suspiciousness_score s \<and> suspiciousness_score s \<le> 1"
      using py_round_unit tarantula_bounds by simp
  qed
  have ex: "\<exists>s \<in> set ?out. line_number s = l" if "covered_by l ?P \<or> covered_by l ?F" for l
  proof -
    define s0 where "s0 = \<lparr>file_name = src, line_number = l, line_content = line_text sl l,
             suspiciousness_score =
               py_round (tarantula (n_covering l ?P) (n_covering l ?F) (length ?P) (length ?F)) 4,
             failed_coverage = n_covering l ?F, passed_coverage = n_covering l ?P\<rparr>"
    have "s0 \<in> set ?out" unfolding mem s0_def using that by blast
    moreover have "line_number s0 = l" by (simp add: s0_def)
    ultimately show ?thesis by blast
  qed
  have b: "suspiciousness_score s = 1"
    if "covered_by l ?F" "\<not> covered_by l ?P" "s \<in> set ?out" "line_number s = l" for s l
  proof -
    have np: "n_covering l ?P = 0" using that(2) n_covering_pos [of l ?P] by simp
    have nf: "0 < n_covering l ?F" using that(1) n_covering_pos [of l ?F] by simp
    from that(3,4) have "suspiciousness_score s =
        py_round (tarantula (n_covering l ?P) (n_covering l ?F) (length ?P) (length ?F)) 4"
      unfolding mem by auto
    then show ?thesis using np nf tf by (simp add: tarantula_only_failed py_round_1)
  qed
  have c: "suspiciousness_score s = 0"
    if "\<not> covered_by l ?F" "s \<in> set ?out" "line_number s = l" for s l
  proof -
    have nf: "n_covering l ?F = 0" using that(1) n_covering_pos [of l ?F] by simp
    from that(2,3) have "suspiciousness_score s =
        py_round (tarantula (n_covering l ?P) (n_covering l ?F) (length ?P) (length ?F)) 4"
      unfolding mem by auto
    then show ?thesis using nf by (simp add: tarantula_no_failed py_round_0)
  qed
  have d: "line_number s \<noteq> l" if "\<not> covered_by l trs" "s \<in> set ?out" for s l
  proof
    assume "line_number s = l"
    with that(2) have "covered_by l ?P \<or> covered_by l ?F" unfolding mem by auto
    then show False using that(1) covered_by_tests_with by blast
  qed
  show ?thesis using a ex b c d by blast
qed

theorem C1_tarantula_scores_witness:
  "tests_with ''failed'' trs_a \<noteq> [] \<and>
   list_all (\<lambda>s. 0 \<le> suspiciousness_score s \<and> suspiciousness_score s \<le> 1)
     (suspicious_lines (fst (analyze TarantulaLocalizer_init ''a1'' ''f.cpp'' trs_a None))) \<and>
   covered_by 3 (tests_with ''failed'' trs_a) \<and> \<not> covered_by 3 (tests_with ''passed'' trs_a) \<and>
   (\<exists>s \<in> set (suspicious_lines (fst (analyze TarantulaLocalizer_init ''a1'' ''f.cpp'' trs_a None))).
      line_number s = 3 \<and> suspiciousness_score s = 1) \<and>
   covered_by 7 (tests_with ''passed'' trs_a) \<and> \<not> covered_by 7 (tests_with ''failed'' trs_a) \<and>
   (\<exists>s \<in> set (suspicious_lines (fst (analyze TarantulaLocalizer_init ''a1'' ''f.cpp'' trs_a None))).
      line_number s = 7 \<and> suspiciousness_score s = 0) \<and>
   \<not> covered_by 9 trs_a \<and>
   9 \<notin> set (map line_number
     (suspicious_lines (fst (analyze TarantulaLocalizer_init ''a1'' ''f.cpp'' trs_a None))))"
proof -
  have h: "tests_with ''failed'' trs_a \<noteq> []" by (simp add: tests_with_def trs_a_def)
  have c3: "covered_by 3 (tests_with ''failed'' trs_a) \<and> \<not> covered_by 3 (tests_with ''passed'' trs_a)"
    by (simp add: covered_by_def tests_with_def trs_a_def)
  have c7: "covered_by 7 (tests_with ''passed'' trs_a) \<and> \<not> covered_by 7 (tests_with ''failed'' trs_a)"
    by (simp add: covered_by_def tests_with_def trs_a_def)
  have c9: "\<not> covered_by 9 trs_a" by (simp add: covered_by_def trs_a_def)
  note t = C1_tarantula_scores [OF h, of TarantulaLocalizer_init "''a1''" "''f.cpp''" None]
  have r: "list_all (\<lambda>s. 0 \<le> suspiciousness_score s \<and> suspiciousness_score s \<le> 1)
     (suspicious_lines (fst (analyze TarantulaLocalizer_init ''a1'' ''f.cpp'' trs_a None)))"
    unfolding list_all_iff using t by blast
  have n: "9 \<notin> set (map line_number
     (suspicious_lines (fst (analyze TarantulaLocalizer_init ''a1'' ''f.cpp'' trs_a None))))"
    using t c9 by auto
  show ?thesis using t h c3 c7 c9 r n by blast
qed

text \<open>
  Claim C9. Two calls of \<open>analyze\<close> with the same file name, test results and line
  contents return the same suspicious-line list (scores, counts and order), whether the
  second call is made on the localizer the first one left or on any other, and whatever
  identifiers are drawn: the two outputs differ in the analysis identifier only.
\<close>

theorem C9_analyze_idempotent:
  "suspicious_lines (fst (analyze self1 uuid1 src trs sl)) =
     suspicious_lines (fst (analyze (snd (analyze self1 uuid1 src trs sl)) uuid2 src trs sl)) \<and>
   suspicious_lines (fst (analyze self1 uuid1 src trs sl)) =
     suspicious_lines (fst (analyze self2 uuid2 src trs sl)) \<and>
   fst (analyze self2 uuid2 src trs sl) =
     (fst (analyze self1 uuid1 src trs sl))\<lparr>analysis_id := uuid2\<rparr>"
  by (simp add: analyze_def Let_def)

lemma tests_with_relevant:
  "tests_with ''passed'' (filter (\<lambda>t. status t = ''passed'' \<or> status t = ''failed'') trs) =
     tests_with ''passed'' trs"
  "tests_with ''failed'' (filter (\<lambda>t. status t = ''passed'' \<or> status t = ''failed'') trs) =
     tests_with ''failed'' trs"
  unfolding tests_with_def by (induction trs) auto

text \<open>
  Claim C10. A test whose status is neither "passed" nor "failed" counts in
  \<open>total_tests\<close> and in neither partition; every record's coverage counts are taken
  over the passed and the failed tests alone, and dropping all other tests from the
  spectrum leaves the suspicious-line list unchanged; a spectrum without a failed test
  (so one whose tests that did not pass are all errors) takes the early exit: empty
  list, zero failed tests, localizer untouched.
\<close>

theorem C10_other_status:
  "total_tests (fst (analyze self uuid src trs sl)) = length trs \<and>
   passed_tests (fst (analyze self uuid src trs sl)) = length (tests_with ''passed'' trs) \<and>
   failed_tests (fst (analyze self uuid src trs sl)) = length (tests_with ''failed'' trs) \<and>
   (\<forall>s \<in> set (suspicious_lines (fst (analyze self uuid src trs sl))).
      passed_coverage s = n_covering (line_number s) (tests_with ''passed'' trs) \<and>
      failed_coverage s = n_covering (line_number s) (tests_with ''failed'' trs)) \<and>
   suspicious_lines (fst (analyze self uuid src
      (filter (\<lambda>t. status t = ''passed'' \<or> status t = ''failed'') trs) sl)) =
     suspicious_lines (fst (analyze self uuid src trs sl)) \<and>
   ((\<forall>t \<in> set trs. status t \<noteq> ''failed'') \<longrightarrow>
      suspicious_lines (fst (analyze self uuid src trs sl)) = [] \<and>
      failed_tests (fst (analyze self uuid src trs sl)) = 0 \<and>
      snd (analyze self uuid src trs sl) = self)"
proof -
  let ?out = "fst (analyze self uuid src trs sl)"
  have a: "total_tests ?out = length trs \<and>
      passed_tests ?out = length (tests_with ''passed'' trs) \<and>
      failed_tests ?out = length (tests_with ''failed'' trs)"
    by (simp add: analyze_def Let_def tests_with_def)
  have b: "\<forall>s \<in> set (suspicious_lines ?out).
      passed_coverage s = n_covering (line_number s) (tests_with ''passed'' trs) \<and>
      failed_coverage s = n_covering (line_number s) (tests_with ''failed'' trs)"
  proof (cases "tests_with ''failed'' trs = []")
    case True
    then show ?thesis by (simp add: suspicious_lines_analyze)
  next
    case False
    show ?thesis
    proof
      fix s assume "s \<in> set (suspicious_lines ?out)"
      then obtain l where
        "s = \<lparr>file_name = src, line_number = l, line_content = line_text sl l,
             suspiciousness_score =
               py_round (tarantula (n_covering l (tests_with ''passed'' trs))
                                   (n_covering l (tests_with ''failed'' trs))
                                   (length (tests_with ''passed'' trs))
                                   (length (tests_with ''failed'' trs))) 4,
             failed_coverage = n_covering l (tests_with ''failed'' trs),
             passed_coverage = n_covering l (tests_with ''passed'' trs)\<rparr>"
        using set_suspicious_lines [OF False, of s self uuid src sl] by blast
      then show "passed_coverage s = n_covering (line_number s) (tests_with ''passed'' trs) \<and>
          failed_coverage s = n_covering (line_number s) (tests_with ''failed'' trs)" by simp
    qed
  qed
  have c: "suspicious_lines (fst (analyze self uuid src
      (filter (\<lambda>t. status t = ''passed'' \<or> status t = ''failed'') trs) sl)) =
     suspicious_lines ?out"
    unfolding suspicious_lines_analyze tests_with_relevant by simp
  have d: "suspicious_lines ?out = [] \<and> failed_tests ?out = 0 \<and>
      snd (analyze self uuid src trs sl) = self" if "\<forall>t \<in> set trs. status t \<noteq> ''failed''"
  proof -
    have "filter (\<lambda>t. status t = ''failed'') trs = []" using that by (simp add: filter_empty_conv)
    then show ?thesis by (simp add: analyze_def Let_def)
  qed
  show ?thesis using a b c d by blast
qed

theorem C10_other_status_witness:
  "''failed'' \<notin> set (map status trs_err) \<and>
   total_tests (fst (analyze TarantulaLocalizer_init ''a1'' ''f.cpp'' trs_err None)) = 2 \<and>
   passed_tests (fst (analyze TarantulaLocalizer_init ''a1'' ''f.cpp'' trs_err None)) = 1 \<and>
   failed_tests (fst (analyze TarantulaLocalizer_init ''a1'' ''f.cpp'' trs_err None)) = 0 \<and>
   suspicious_lines (fst (analyze TarantulaLocalizer_init ''a1'' ''f.cpp'' trs_err None)) = [] \<and>
   snd (analyze TarantulaLocalizer_init ''a1'' ''f.cpp'' trs_err None) = TarantulaLocalizer_init \<and>
   covered_by 1 (tests_with ''error'' trs_a) \<and>
   total_tests (fst (analyze TarantulaLocalizer_init ''a1'' ''f.cpp'' trs_a None)) = 3 \<and>
   (\<exists>s \<in> set (suspicious_lines (fst (analyze TarantulaLocalizer_init ''a1'' ''f.cpp'' trs_a None))).
      line_number s = 1 \<and> passed_coverage s = 1 \<and> failed_coverage s = 1)"
proof -
  have h0: "''failed'' \<notin> set (map status trs_err)" by (simp add: trs_err_def)
  have h: "\<forall>t \<in> set trs_err. status t \<noteq> ''failed''" by (simp add: trs_err_def)
  have l: "length trs_err = 2 \<and> length (tests_with ''passed'' trs_err) = 1"
    by (simp add: trs_err_def tests_with_def)
  note t = C10_other_status [of TarantulaLocalizer_init "''a1''" "''f.cpp''" trs_err None]
  from t have a: "total_tests (fst (analyze TarantulaLocalizer_init ''a1'' ''f.cpp'' trs_err None)) =
      length trs_err"
    and b: "passed_tests (fst (analyze TarantulaLocalizer_init ''a1'' ''f.cpp'' trs_err None)) =
      length (tests_with ''passed'' trs_err)"
    by blast+
  from t h have c: "suspicious_lines (fst (analyze TarantulaLocalizer_init ''a1'' ''f.cpp'' trs_err None)) = [] \<and>
      failed_tests (fst (analyze TarantulaLocalizer_init ''a1'' ''f.cpp'' trs_err None)) = 0 \<and>
      snd (analyze TarantulaLocalizer_init ''a1'' ''f.cpp'' trs_err None) = TarantulaLocalizer_init"
    by blast
  note u = C10_other_status [of TarantulaLocalizer_init "''a1''" "''f.cpp''" trs_a None]
  have e: "covered_by 1 (tests_with ''error'' trs_a)"
    by (simp add: covered_by_def tests_with_def trs_a_def)
  have hf: "tests_with ''failed'' trs_a \<noteq> []" by (simp add: tests_with_def trs_a_def)
  have cf: "covered_by 1 (tests_with ''failed'' trs_a)"
    by (simp add: covered_by_def tests_with_def trs_a_def)
  define s0 where "s0 = \<lparr>file_name = ''f.cpp'', line_number = 1, line_content = line_text None 1,
       suspiciousness_score =
         py_round (tarantula (n_covering 1 (tests_with ''passed'' trs_a))
                             (n_covering 1 (tests_with ''failed'' trs_a))
                             (length (tests_with ''passed'' trs_a))
                             (length (tests_with ''failed'' trs_a))) 4,
       failed_coverage = n_covering 1 (tests_with ''failed'' trs_a),
       passed_coverage = n_covering 1 (tests_with ''passed'' trs_a)\<rparr>"
  have mem: "s0 \<in> set (suspicious_lines (fst (analyze TarantulaLocalizer_init ''a1'' ''f.cpp'' trs_a None)))"
    unfolding set_suspicious_lines [OF hf] s0_def using cf by blast
  have ln: "line_number s0 = 1" by (simp add: s0_def)
  from u mem have cnt: "passed_coverage s0 = n_covering (line_number s0) (tests_with ''passed'' trs_a) \<and>
      failed_coverage s0 = n_covering (line_number s0) (tests_with ''failed'' trs_a)" by blast
  have n1: "n_covering 1 (tests_with ''passed'' trs_a) = 1 \<and>
      n_covering 1 (tests_with ''failed'' trs_a) = 1"
    by (simp add: n_covering_def tests_with_def trs_a_def)
  have x: "\<exists>s \<in> set (suspicious_lines (fst (analyze TarantulaLocalizer_init ''a1'' ''f.cpp'' trs_a None))).
      line_number s = 1 \<and> passed_coverage s = 1 \<and> failed_coverage s = 1"
    using mem ln cnt n1 by auto
  from u have tt: "total_tests (fst (analyze TarantulaLocalizer_init ''a1'' ''f.cpp'' trs_a None)) =
      length trs_a" by blast
  have l3: "length trs_a = 3" by (simp add: trs_a_def)
  show ?thesis using a b c h0 l e x tt l3 by simp
qed

section \<open>Mutation\<close>














section \<open>Reporter\<close>

lemma not_clustered_Cons: "c \<noteq> CHR ''S'' \<Longrightarrow> \<not> is_clustered_recommendation (c # s)"
  by (simp add: is_clustered_recommendation_def)

lemma is_clustered_message: "is_clustered_recommendation (clustered_message ns)"
  by (simp add: is_clustered_recommendation_def clustered_message_def)

lemma length_gaps: "length (gaps xs) = length xs - 1"
  by (induction xs rule: gaps.induct) simp_all

lemma are_lines_clustered_iff:
  assumes "2 \<le> length ns"
  shows "are_lines_clustered ns t \<longleftrightarrow> list_all (\<lambda>g. g \<le> t) (gaps (sort ns))"
proof -
  have "length (gaps (sort ns)) = length ns - 1" by (simp add: length_gaps)
  then have ne: "set (gaps (sort ns)) \<noteq> {}" using assms by (cases "gaps (sort ns)") auto
  have "Max (set (gaps (sort ns))) \<le> t \<longleftrightarrow> (\<forall>g \<in> set (gaps (sort ns)). g \<le> t)"
    using ne by (simp add: Max_le_iff)
  then show ?thesis using assms by (simp add: are_lines_clustered_def Let_def list_all_iff)
qed

lemma not_clustered_others:
  "\<forall>s \<in> set (recommend_top_line x). \<not> is_clustered_recommendation s"
  "\<forall>s \<in> set (recommend_only_in_failed tops). \<not> is_clustered_recommendation s"
  "\<forall>s \<in> set (recommend_suite_size a). \<not> is_clustered_recommendation s"
  "\<forall>s \<in> set (recommend_balance a). \<not> is_clustered_recommendation s"
  by (simp_all add: recommend_top_line_def recommend_only_in_failed_def recommend_suite_size_def
        recommend_balance_def Let_def not_clustered_Cons)

lemma clustered_in_recommend_clustered:
  "(\<exists>s \<in> set (recommend_clustered tops). is_clustered_recommendation s) \<longleftrightarrow>
     (3 \<le> length tops \<and> are_lines_clustered (map line_number (take 5 tops)) 5)"
  by (simp add: recommend_clustered_def Let_def is_clustered_message)

lemma clustered_in_recommendations:
  "(\<exists>s \<in> set (generate_recommendations a tops). is_clustered_recommendation s) \<longleftrightarrow>
     (3 \<le> length tops \<and> are_lines_clustered (map line_number (take 5 tops)) 5)"
proof (cases tops)
  case Nil
  then show ?thesis by (simp add: generate_recommendations_def not_clustered_Cons)
next
  case (Cons x xs)
  have "(\<exists>s \<in> set (generate_recommendations a tops). is_clustered_recommendation s) \<longleftrightarrow>
      (\<exists>s \<in> set (recommend_clustered tops). is_clustered_recommendation s)"
    unfolding generate_recommendations_def Cons
    using not_clustered_others(1) [of x] not_clustered_others(2) [of "x # xs"]
      not_clustered_others(3) [of a] not_clustered_others(4) [of a]
    by auto
  then show ?thesis by (simp only: clustered_in_recommend_clustered)
qed

text \<open>
  Claim C8 as stated fails in both directions: three top lines 1, 6 and 11 span a range
  of 10 and get the recommendation; two top lines 1 and 2 span a range of 1 and get none.
\<close>

theorem C8_counterexample:
  "Max (set (map line_number (take 5 (suspicious_lines analysis_spread)))) -
     Min (set (map line_number (take 5 (suspicious_lines analysis_spread)))) = 10 \<and>
   ''Suspicious lines appear clustered around lines 1-11. The fault may be in this code region.''
     \<in> set (recommendations (generate_report analysis_spread 10 ''r1'' ''now'')) \<and>
   Max (set (map line_number (take 5 (suspicious_lines analysis_pair)))) -
     Min (set (map line_number (take 5 (suspicious_lines analysis_pair)))) = 1 \<and>
   \<not> list_ex is_clustered_recommendation
        (recommendations (generate_report analysis_pair 10 ''r1'' ''now''))"
  by code_simp

text \<open>
  Claim C8, as the code has it. The report's top lines are the first \<open>top_n\<close> suspicious
  lines. Its recommendations hold one about clustered lines exactly when there are at
  least 3 top lines and, among the line numbers of the first 5 of them put in ascending
  order, every two neighbours are at most 5 apart; the recommendation then names the
  region from the least to the greatest of these line numbers.
\<close>

theorem C8_clustered_recommendation:
  "top_suspicious_lines (generate_report analysis top_n uuid now) =
     py_take top_n (suspicious_lines analysis) \<and>
   ((\<exists>s \<in> set (recommendations (generate_report analysis top_n uuid now)).
       is_clustered_recommendation s) \<longleftrightarrow>
    (3 \<le> length (py_take top_n (suspicious_lines analysis)) \<and>
     list_all (\<lambda>g. g \<le> 5)
       (gaps (sort (map line_number (take 5 (py_take top_n (suspicious_lines analysis)))))))) \<and>
   (3 \<le> length (py_take top_n (suspicious_lines analysis)) \<and>
    list_all (\<lambda>g. g \<le> 5)
      (gaps (sort (map line_number (take 5 (py_take top_n (suspicious_lines analysis)))))) \<longrightarrow>
      ''Suspicious lines appear clustered around lines '' @
        str_int (Min (set (map line_number (take 5 (py_take top_n (suspicious_lines analysis)))))) @
        ''-'' @
        str_int (Max (set (map line_number (take 5 (py_take top_n (suspicious_lines analysis)))))) @
        ''. The fault may be in this code region.''
      \<in> set (recommendations (generate_report analysis top_n uuid now)))"
proof -
  let ?tops = "py_take top_n (suspicious_lines analysis)"
  let ?ns = "map line_number (take 5 ?tops)"
  have r: "recommendations (generate_report analysis top_n uuid now) =
      generate_recommendations analysis ?tops"
    and t: "top_suspicious_lines (generate_report analysis top_n uuid now) = ?tops"
    by (simp_all add: generate_report_def Let_def)
  have iff: "are_lines_clustered ?ns 5 \<longleftrightarrow> list_all (\<lambda>g. g \<le> 5) (gaps (sort ?ns))"
    if "3 \<le> length ?tops"
    using that by (intro are_lines_clustered_iff) simp
  have a: "(\<exists>s \<in> set (generate_recommendations analysis ?tops). is_clustered_recommendation s) \<longleftrightarrow>
      (3 \<le> length ?tops \<and> list_all (\<lambda>g. g \<le> 5) (gaps (sort ?ns)))"
    unfolding clustered_in_recommendations using iff by blast
  have b: "clustered_message ?ns \<in> set (generate_recommendations analysis ?tops)"
    if "3 \<le> length ?tops" "list_all (\<lambda>g. g \<le> 5) (gaps (sort ?ns))"
  proof -
    have c: "are_lines_clustered ?ns 5" using that iff by blast
    have "?tops \<noteq> []" using that(1) by auto
    then obtain x xs where x: "?tops = x # xs" by (cases ?tops) auto
    have "clustered_message ?ns \<in> set (recommend_clustered ?tops)"
      using that(1) c by (simp add: recommend_clustered_def Let_def)
    then show ?thesis unfolding generate_recommendations_def x by simp
  qed
  show ?thesis unfolding r t using a b by (simp add: clustered_message_def)
qed

theorem C8_clustered_recommendation_witness:
  "3 \<le> length (py_take 10 (suspicious_lines analysis_spread)) \<and>
   list_all (\<lambda>g. g \<le> 5)
     (gaps (sort (map line_number (take 5 (py_take 10 (suspicious_lines analysis_spread)))))) \<and>
   list_ex is_clustered_recommendation
     (recommendations (generate_report analysis_spread 10 ''r1'' ''now'')) \<and>
   ''Suspicious lines appear clustered around lines '' @
        str_int (Min (set (map line_number (take 5 (py_take 10 (suspicious_lines analysis_spread)))))) @
        ''-'' @
        str_int (Max (set (map line_number (take 5 (py_take 10 (suspicious_lines analysis_spread)))))) @
        ''. The fault may be in this code region.''
      \<in> set (recommendations (generate_report analysis_spread 10 ''r1'' ''now''))"
proof -
  have h: "3 \<le> length (py_take 10 (suspicious_lines analysis_spread)) \<and>
   list_all (\<lambda>g. g \<le> 5)
     (gaps (sort (map line_number (take 5 (py_take 10 (suspicious_lines analysis_spread))))))"
    by code_simp
  show ?thesis
    using C8_clustered_recommendation [of analysis_spread 10 "''r1''" "''now''"] h
    unfolding list_ex_iff by blast
qed

end
